theory Spec2Isabelle
  imports Complex_Main "HOL-Library.Monad_Syntax"
begin

section \<open>Configuration constants of \<^verbatim>\<open>MPC.cpp\<close>\<close>

text \<open>
  The source computes over \<^verbatim>\<open>double\<close> (and \<^verbatim>\<open>AD<double>\<close>, whose value part is a
  \<^verbatim>\<open>double\<close>). The embedding takes these scalars as \<^typ>\<open>real\<close>: every arithmetic
  operation is exact, and rounding, overflow to infinity and NaN are outside the model.
  Indices and sizes (\<^verbatim>\<open>size_t\<close>, \<^verbatim>\<open>unsigned int\<close>) are \<^typ>\<open>nat\<close>; every subtraction on
  them in the source happens where the minuend is the larger, so no wrap-around is reachable.
\<close>

definition solver_N :: nat where
  "solver_N = 12"

definition solver_dt :: real where
  "solver_dt = 0.1"

definition Lf :: real where
  "Lf = 2.67"

definition max_delta :: real where
  "max_delta = 0.436332"

definition max_acc :: real where
  "max_acc = 1.0"

definition std_cte :: real where
  "std_cte = 4.0"

definition std_epsi :: real where
  "std_epsi = pi / 5"

definition std_ddelta_dt :: real where
  "std_ddelta_dt = max_delta / 4"

definition std_dacc_dt :: real where
  "std_dacc_dt = max_acc / 2"

text \<open>
  \<^verbatim>\<open>mps_to_mph\<close> is declared in \<^verbatim>\<open>MPC.h\<close>, which is not among the source files; it is a
  parameter of everything that depends on the speed limit.
\<close>

definition speed_limit :: "real \<Rightarrow> real" where
  "speed_limit mps_to_mph = 70 / mps_to_mph"

subsection \<open>Layout of the decision vector\<close>

definition x_start :: nat where
  "x_start = 0"

definition y_start :: nat where
  "y_start = x_start + solver_N"

definition psi_start :: nat where
  "psi_start = y_start + solver_N"

definition v_start :: nat where
  "v_start = psi_start + solver_N"

definition cte_start :: nat where
  "cte_start = v_start + solver_N"

definition epsi_start :: nat where
  "epsi_start = cte_start + solver_N"

definition delta_start :: nat where
  "delta_start = epsi_start + solver_N"

definition a_start :: nat where
  "a_start = delta_start + solver_N - 1"

definition n_vars :: nat where
  "n_vars = a_start + solver_N - 1"

definition n_constraints :: nat where
  "n_constraints = delta_start"

section \<open>Vectors with checked indexing\<close>

text \<open>
  \<^verbatim>\<open>CppAD::vector\<close>, \<^verbatim>\<open>Eigen::VectorXd\<close> and \<^verbatim>\<open>std::vector\<close> are lists. An index outside the
  vector is an assertion failure or undefined behaviour in the source; in the model every
  read and write is checked and the failure is the value \<open>None\<close>.
\<close>

definition vec_get :: "'a list \<Rightarrow> nat \<Rightarrow> 'a option" where
  "vec_get xs i = (if i < length xs then Some (xs ! i) else None)"

definition vec_set :: "'a list \<Rightarrow> nat \<Rightarrow> 'a \<Rightarrow> 'a list option" where
  "vec_set xs i v = (if i < length xs then Some (xs[i := v]) else None)"

text \<open>The compound assignment \<^verbatim>\<open>xs[i] += v\<close>.\<close>

definition vec_add :: "real list \<Rightarrow> nat \<Rightarrow> real \<Rightarrow> real list option" where
  "vec_add xs i v = (if i < length xs then Some (xs[i := xs ! i + v]) else None)"

text \<open>
  The loop \<^verbatim>\<open>for (t = t0; t < n; t++) body\<close> over a state \<open>s\<close>; a failing body ends it.
\<close>

function for_loop :: "nat \<Rightarrow> nat \<Rightarrow> (nat \<Rightarrow> 's \<Rightarrow> 's option) \<Rightarrow> 's \<Rightarrow> 's option" where
  "for_loop t n body s =
     (if t < n
      then (case body t s of None \<Rightarrow> None | Some s' \<Rightarrow> for_loop (Suc t) n body s')
      else Some s)"
  by pat_completeness auto
termination
  by (relation "measure (\<lambda>(t, n, body, s). n - t)") auto

declare for_loop.simps [simp del]

section \<open>\<^verbatim>\<open>polyeval_AD\<close>\<close>

definition polyeval_body :: "real list \<Rightarrow> real \<Rightarrow> nat \<Rightarrow> real \<Rightarrow> real option" where
  "polyeval_body coeffs x i result = do {
     c \<leftarrow> vec_get coeffs i;
     Some (result + c * x ^ i)
   }"

definition polyeval_AD :: "real list \<Rightarrow> real \<Rightarrow> real option" where
  "polyeval_AD coeffs x = for_loop 0 (length coeffs) (polyeval_body coeffs x) 0"

section \<open>\<^verbatim>\<open>FG_eval::operator()\<close>\<close>

subsection \<open>The cost, stored in \<^verbatim>\<open>fg[0]\<close>\<close>

text \<open>The integer factor \<^verbatim>\<open>50 * (solver_N - t)\<close> of the cte term at step \<open>t\<close>.\<close>

definition cte_weight :: "nat \<Rightarrow> nat" where
  "cte_weight t = 50 * (solver_N - t)"

definition cost_state_body :: "real \<Rightarrow> real list \<Rightarrow> nat \<Rightarrow> real list \<Rightarrow> real list option" where
  "cost_state_body mps_to_mph vars t fg = do {
     cte \<leftarrow> vec_get vars (cte_start + t);
     fg \<leftarrow> vec_add fg 0 (real (cte_weight t) * (cte / std_cte) ^ 2);
     epsi \<leftarrow> vec_get vars (epsi_start + t);
     fg \<leftarrow> vec_add fg 0 (2 * (epsi / std_epsi) ^ 2);
     v \<leftarrow> vec_get vars (v_start + t);
     vec_add fg 0 (50 * ((v - speed_limit mps_to_mph) / speed_limit mps_to_mph) ^ 2)
   }"

definition cost_actuator_body :: "real list \<Rightarrow> nat \<Rightarrow> real list \<Rightarrow> real list option" where
  "cost_actuator_body vars t fg = do {
     delta \<leftarrow> vec_get vars (delta_start + t);
     fg \<leftarrow> vec_add fg 0 (5 * (delta / max_delta) ^ 2);
     a \<leftarrow> vec_get vars (a_start + t);
     vec_add fg 0 (1 * (a / max_acc) ^ 2)
   }"

definition cost_change_body :: "real list \<Rightarrow> nat \<Rightarrow> real list \<Rightarrow> real list option" where
  "cost_change_body vars t fg = do {
     delta1 \<leftarrow> vec_get vars (delta_start + t + 1);
     delta0 \<leftarrow> vec_get vars (delta_start + t);
     fg \<leftarrow> vec_add fg 0 (50 * ((delta1 - delta0) / std_ddelta_dt) ^ 2);
     a1 \<leftarrow> vec_get vars (a_start + t + 1);
     a0 \<leftarrow> vec_get vars (a_start + t);
     vec_add fg 0 (1 * ((a1 - a0) / std_dacc_dt) ^ 2)
   }"

subsection \<open>The constraints, stored from \<^verbatim>\<open>fg[1]\<close> on\<close>

text \<open>\<^verbatim>\<open>helper_psi_term\<close>, computed once per step and used by two residuals.\<close>

definition helper_psi_term :: "real \<Rightarrow> real \<Rightarrow> real" where
  "helper_psi_term v0 delta0 = v0 * delta0 / Lf * solver_dt"

definition constraint_body :: "real list \<Rightarrow> real list \<Rightarrow> nat \<Rightarrow> real list \<Rightarrow> real list option" where
  "constraint_body coeffs vars t fg = do {
     x1 \<leftarrow> vec_get vars (x_start + t);
     y1 \<leftarrow> vec_get vars (y_start + t);
     psi1 \<leftarrow> vec_get vars (psi_start + t);
     v1 \<leftarrow> vec_get vars (v_start + t);
     cte1 \<leftarrow> vec_get vars (cte_start + t);
     epsi1 \<leftarrow> vec_get vars (epsi_start + t);
     x0 \<leftarrow> vec_get vars (x_start + t - 1);
     y0 \<leftarrow> vec_get vars (y_start + t - 1);
     psi0 \<leftarrow> vec_get vars (psi_start + t - 1);
     v0 \<leftarrow> vec_get vars (v_start + t - 1);
     epsi0 \<leftarrow> vec_get vars (epsi_start + t - 1);
     delta0 \<leftarrow> vec_get vars (delta_start + t - 1);
     a0 \<leftarrow> vec_get vars (a_start + t - 1);
     desired_y0 \<leftarrow> polyeval_AD coeffs x0;
     c1 \<leftarrow> vec_get coeffs 1;
     let desired_psi0 = arctan c1;
     let hpt = helper_psi_term v0 delta0;
     fg \<leftarrow> vec_set fg (1 + x_start + t) (x1 - (x0 + v0 * cos psi0 * solver_dt));
     fg \<leftarrow> vec_set fg (1 + y_start + t) (y1 - (y0 + v0 * sin psi0 * solver_dt));
     fg \<leftarrow> vec_set fg (1 + psi_start + t) (psi1 - (psi0 + hpt));
     fg \<leftarrow> vec_set fg (1 + v_start + t) (v1 - (v0 + a0 * solver_dt));
     fg \<leftarrow> vec_set fg (1 + cte_start + t)
             (cte1 - ((desired_y0 - y0) + (v0 * sin epsi0 * solver_dt)));
     vec_set fg (1 + epsi_start + t) (epsi1 - ((psi0 - desired_psi0) + hpt))
   }"

text \<open>The assignment \<^verbatim>\<open>fg[1 + start] = vars[start]\<close> of the initial timestep.\<close>

definition copy_initial :: "real list \<Rightarrow> nat \<Rightarrow> real list \<Rightarrow> real list option" where
  "copy_initial vars start fg = do {
     v \<leftarrow> vec_get vars start;
     vec_set fg (1 + start) v
   }"

definition FG_eval :: "real \<Rightarrow> real list \<Rightarrow> real list \<Rightarrow> real list \<Rightarrow> real list option" where
  "FG_eval mps_to_mph coeffs fg vars = do {
     fg \<leftarrow> vec_set fg 0 0;
     fg \<leftarrow> for_loop 0 solver_N (cost_state_body mps_to_mph vars) fg;
     fg \<leftarrow> for_loop 0 (solver_N - 1) (cost_actuator_body vars) fg;
     fg \<leftarrow> for_loop 0 (solver_N - 2) (cost_change_body vars) fg;
     fg \<leftarrow> copy_initial vars x_start fg;
     fg \<leftarrow> copy_initial vars y_start fg;
     fg \<leftarrow> copy_initial vars psi_start fg;
     fg \<leftarrow> copy_initial vars v_start fg;
     fg \<leftarrow> copy_initial vars cte_start fg;
     fg \<leftarrow> copy_initial vars epsi_start fg;
     for_loop 1 solver_N (constraint_body coeffs vars) fg
   }"

subsection \<open>The kinematic step inside the residuals\<close>

text \<open>
  The source has no separate prediction function: the predicted state is the
  subtrahend of the residuals of \<open>constraint_body\<close>. \<open>predict\<close> collects the
  four subtrahends for \<open>x\<close>, \<open>y\<close>, \<open>psi\<close> and \<open>v\<close>, from the state
  \<open>(x0, y0, psi0, v0)\<close> and the actuation \<open>(delta0, a0)\<close>.
\<close>

definition predict :: "real \<times> real \<times> real \<times> real \<Rightarrow> real \<times> real \<Rightarrow> real \<times> real \<times> real \<times> real" where
  "predict s u =
     (case s of (x0, y0, psi0, v0) \<Rightarrow>
      case u of (delta0, a0) \<Rightarrow>
        (x0 + v0 * cos psi0 * solver_dt,
         y0 + v0 * sin psi0 * solver_dt,
         psi0 + helper_psi_term v0 delta0,
         v0 + a0 * solver_dt))"

section \<open>\<^verbatim>\<open>MPC::Solve\<close>\<close>

text \<open>
  \<^verbatim>\<open>Dvector v(n)\<close> allocates \<open>n\<close> entries without giving them a value; the model
  fills them with a value \<open>junk\<close> that is a parameter, so nothing proved depends on it.
\<close>

definition Dvector :: "real \<Rightarrow> nat \<Rightarrow> real list" where
  "Dvector junk n = replicate n junk"

text \<open>One iteration \<^verbatim>\<open>xs[i] = v\<close> of a filling loop.\<close>

definition fill_body :: "real \<Rightarrow> nat \<Rightarrow> real list \<Rightarrow> real list option" where
  "fill_body v i xs = vec_set xs i v"

text \<open>
  One iteration \<^verbatim>\<open>vars_lowerbound[i] = -b; vars_upperbound[i] = b\<close> of a loop over the
  variable bounds; the state is the pair of the two arrays.
\<close>

definition limit_body :: "real \<Rightarrow> nat \<Rightarrow> real list \<times> real list \<Rightarrow> (real list \<times> real list) option" where
  "limit_body b i bounds =
     (case bounds of (vars_lowerbound, vars_upperbound) \<Rightarrow> do {
        lower \<leftarrow> vec_set vars_lowerbound i (- b);
        upper \<leftarrow> vec_set vars_upperbound i b;
        Some (lower, upper)
      })"

text \<open>
  One iteration \<^verbatim>\<open>constraints_lowerbound[i] = constraints_upperbound[i] = 0.0\<close>.
\<close>

definition zero_body :: "nat \<Rightarrow> real list \<times> real list \<Rightarrow> (real list \<times> real list) option" where
  "zero_body i bounds =
     (case bounds of (constraints_lowerbound, constraints_upperbound) \<Rightarrow> do {
        upper \<leftarrow> vec_set constraints_upperbound i 0;
        lower \<leftarrow> vec_set constraints_lowerbound i 0;
        Some (lower, upper)
      })"

text \<open>
  The problem handed to the solver: the initial guess, the variable bounds and the
  constraint bounds.
\<close>

record nlp =
  vars_init :: "real list"
  vars_lowerbound :: "real list"
  vars_upperbound :: "real list"
  constraints_lowerbound :: "real list"
  constraints_upperbound :: "real list"

text \<open>
  \<^verbatim>\<open>vars[start] = constraints_lowerbound[start] = constraints_upperbound[start] = init_state[k]\<close>.
\<close>

definition set_initial :: "real list \<Rightarrow> nat \<Rightarrow> nat \<Rightarrow> nlp \<Rightarrow> nlp option" where
  "set_initial init_state start k p = do {
     v \<leftarrow> vec_get init_state k;
     upper \<leftarrow> vec_set (constraints_upperbound p) start v;
     lower \<leftarrow> vec_set (constraints_lowerbound p) start v;
     vars \<leftarrow> vec_set (vars_init p) start v;
     Some (p\<lparr>vars_init := vars, constraints_lowerbound := lower, constraints_upperbound := upper\<rparr>)
   }"

text \<open>Lines 215 to 258 of \<^verbatim>\<open>MPC::Solve\<close>: everything before the solver is called.\<close>

definition Solve_problem :: "real \<Rightarrow> real \<Rightarrow> real list \<Rightarrow> nlp option" where
  "Solve_problem mps_to_mph junk init_state = do {
     vars \<leftarrow> for_loop 0 n_vars (fill_body 0) (Dvector junk n_vars);
     bounds \<leftarrow> for_loop 0 delta_start (limit_body (10 ^ 19))
                 (Dvector junk n_vars, Dvector junk n_vars);
     bounds \<leftarrow> for_loop v_start cte_start (limit_body (speed_limit mps_to_mph)) bounds;
     bounds \<leftarrow> for_loop delta_start a_start (limit_body max_delta) bounds;
     bounds \<leftarrow> for_loop a_start n_vars (limit_body max_acc) bounds;
     cbounds \<leftarrow> for_loop 0 n_constraints zero_body
                  (Dvector junk n_constraints, Dvector junk n_constraints);
     let p = \<lparr>vars_init = vars,
              vars_lowerbound = fst bounds, vars_upperbound = snd bounds,
              constraints_lowerbound = fst cbounds, constraints_upperbound = snd cbounds\<rparr>;
     p \<leftarrow> set_initial init_state x_start 0 p;
     p \<leftarrow> set_initial init_state y_start 1 p;
     p \<leftarrow> set_initial init_state psi_start 2 p;
     p \<leftarrow> set_initial init_state v_start 3 p;
     p \<leftarrow> set_initial init_state cte_start 4 p;
     set_initial init_state epsi_start 5 p
   }"

text \<open>
  The result of \<^verbatim>\<open>CppAD::ipopt::solve\<close>, an external library: its status (the library's
  enumeration) and its solution vector \<^verbatim>\<open>x\<close>, the two fields \<^verbatim>\<open>Solve\<close> reads.
\<close>

datatype status_type =
    not_defined | success | maxiter_exceeded | stop_at_tiny_step | stop_at_acceptable_point
  | local_infeasibility | user_requested_stop | feasible_point_found | diverging_iterates
  | restoration_failure | error_in_step_computation | invalid_number_detected
  | too_few_degrees_of_freedom | internal_error | unknown

record solve_result =
  solution_status :: status_type
  solution_x :: "real list"

definition solver_options :: string where
  "solver_options =
     ''Integer print_level  0'' @ [CHR 0x0A] @
     ''Sparse  true        forward'' @ [CHR 0x0A] @
     ''Sparse  true        reverse'' @ [CHR 0x0A] @
     ''Numeric max_cpu_time          0.5'' @ [CHR 0x0A]"

text \<open>One iteration of the loop that copies the predicted positions out of the solution.\<close>

definition solved_body :: "real list \<Rightarrow> nat \<Rightarrow> real list \<times> real list \<Rightarrow> (real list \<times> real list) option" where
  "solved_body sol i solved =
     (case solved of (solved_x, solved_y) \<Rightarrow> do {
        xi \<leftarrow> vec_get sol (x_start + i);
        solved_x' \<leftarrow> vec_set solved_x i xi;
        yi \<leftarrow> vec_get sol (y_start + i);
        solved_y' \<leftarrow> vec_set solved_y i yi;
        Some (solved_x', solved_y')
      })"

text \<open>
  Lines 287 to 305 of \<^verbatim>\<open>MPC::Solve\<close>: everything after the solver has returned. The
  result is the text written to \<^verbatim>\<open>std::cerr\<close> and the returned tuple.
\<close>

definition Solve_result :: "solve_result \<Rightarrow> (string list \<times> real \<times> real \<times> real list \<times> real list) option" where
  "Solve_result solution = do {
     let ok = (solution_status solution = success);
     let cerr = (if \<not> ok then [''WARNING: solver was not successful''] else []);
     next_delta \<leftarrow> vec_get (solution_x solution) delta_start;
     next_a \<leftarrow> vec_get (solution_x solution) a_start;
     solved \<leftarrow> for_loop 0 solver_N (solved_body (solution_x solution))
                 (replicate solver_N 0, replicate solver_N 0);
     Some (cerr, next_delta, next_a, fst solved, snd solved)
   }"

text \<open>
  \<^verbatim>\<open>MPC::Solve\<close>. The solver is a parameter: a function of the options, the problem and
  the evaluation callback.
\<close>

definition Solve ::
  "real \<Rightarrow> real \<Rightarrow> (string \<Rightarrow> nlp \<Rightarrow> (real list \<Rightarrow> real list \<Rightarrow> real list option) \<Rightarrow> solve_result)
     \<Rightarrow> real list \<Rightarrow> real list \<Rightarrow> (string list \<times> real \<times> real \<times> real list \<times> real list) option" where
  "Solve mps_to_mph junk solve init_state coeffs = do {
     p \<leftarrow> Solve_problem mps_to_mph junk init_state;
     let fg_eval = FG_eval mps_to_mph coeffs;
     let solution = solve solver_options p fg_eval;
     Solve_result solution
   }"

section \<open>Closed forms\<close>

text \<open>
  The value each loop of \<open>FG_eval\<close> adds to \<^verbatim>\<open>fg[0]\<close> in one iteration, and the sum
  the three loops leave there; lemma \<open>FG_eval_closed\<close> proves that \<open>FG_eval\<close> computes them.
\<close>

definition cost_state_term :: "real \<Rightarrow> real list \<Rightarrow> nat \<Rightarrow> real" where
  "cost_state_term mps_to_mph vars t =
     real (cte_weight t) * (vars ! (cte_start + t) / std_cte) ^ 2
     + 2 * (vars ! (epsi_start + t) / std_epsi) ^ 2
     + 50 * ((vars ! (v_start + t) - speed_limit mps_to_mph) / speed_limit mps_to_mph) ^ 2"

definition cost_actuator_term :: "real list \<Rightarrow> nat \<Rightarrow> real" where
  "cost_actuator_term vars t =
     5 * (vars ! (delta_start + t) / max_delta) ^ 2
     + 1 * (vars ! (a_start + t) / max_acc) ^ 2"

definition cost_change_term :: "real list \<Rightarrow> nat \<Rightarrow> real" where
  "cost_change_term vars t =
     50 * ((vars ! (delta_start + t + 1) - vars ! (delta_start + t)) / std_ddelta_dt) ^ 2
     + 1 * ((vars ! (a_start + t + 1) - vars ! (a_start + t)) / std_dacc_dt) ^ 2"

definition cost_sum :: "real \<Rightarrow> real list \<Rightarrow> real" where
  "cost_sum mps_to_mph vars =
     (\<Sum>t = 0..<solver_N. cost_state_term mps_to_mph vars t)
     + (\<Sum>t = 0..<solver_N - 1. cost_actuator_term vars t)
     + (\<Sum>t = 0..<solver_N - 2. cost_change_term vars t)"

text \<open>
  The six values one iteration of the constraint loop stores, as functions of the step.
\<close>

definition res_x :: "real list \<Rightarrow> nat \<Rightarrow> real" where
  "res_x vars t =
     vars ! (x_start + t)
     - (vars ! (x_start + t - 1)
        + vars ! (v_start + t - 1) * cos (vars ! (psi_start + t - 1)) * solver_dt)"

definition res_y :: "real list \<Rightarrow> nat \<Rightarrow> real" where
  "res_y vars t =
     vars ! (y_start + t)
     - (vars ! (y_start + t - 1)
        + vars ! (v_start + t - 1) * sin (vars ! (psi_start + t - 1)) * solver_dt)"

definition res_psi :: "real list \<Rightarrow> nat \<Rightarrow> real" where
  "res_psi vars t =
     vars ! (psi_start + t)
     - (vars ! (psi_start + t - 1)
        + helper_psi_term (vars ! (v_start + t - 1)) (vars ! (delta_start + t - 1)))"

definition res_v :: "real list \<Rightarrow> nat \<Rightarrow> real" where
  "res_v vars t =
     vars ! (v_start + t)
     - (vars ! (v_start + t - 1) + vars ! (a_start + t - 1) * solver_dt)"

definition res_cte :: "real list \<Rightarrow> real list \<Rightarrow> nat \<Rightarrow> real" where
  "res_cte coeffs vars t =
     vars ! (cte_start + t)
     - (((\<Sum>i<length coeffs. coeffs ! i * vars ! (x_start + t - 1) ^ i)
         - vars ! (y_start + t - 1))
        + vars ! (v_start + t - 1) * sin (vars ! (epsi_start + t - 1)) * solver_dt)"

definition res_epsi :: "real list \<Rightarrow> real list \<Rightarrow> nat \<Rightarrow> real" where
  "res_epsi coeffs vars t =
     vars ! (epsi_start + t)
     - ((vars ! (psi_start + t - 1) - arctan (coeffs ! 1))
        + helper_psi_term (vars ! (v_start + t - 1)) (vars ! (delta_start + t - 1)))"

text \<open>
  What \<open>FG_eval\<close> leaves in \<open>fg\<close> when no access fails: the cost, the six copied
  variables of the initial timestep, and the six residuals of each later timestep.
\<close>

definition fg_closed :: "real \<Rightarrow> real list \<Rightarrow> real list \<Rightarrow> real list \<Rightarrow> bool" where
  "fg_closed mps_to_mph coeffs vars fg' \<longleftrightarrow>
     fg' ! 0 = cost_sum mps_to_mph vars
     \<and> fg' ! (1 + x_start) = vars ! x_start
     \<and> fg' ! (1 + y_start) = vars ! y_start
     \<and> fg' ! (1 + psi_start) = vars ! psi_start
     \<and> fg' ! (1 + v_start) = vars ! v_start
     \<and> fg' ! (1 + cte_start) = vars ! cte_start
     \<and> fg' ! (1 + epsi_start) = vars ! epsi_start
     \<and> (\<forall>t. 1 \<le> t \<and> t < solver_N \<longrightarrow>
           fg' ! (1 + x_start + t) = res_x vars t
         \<and> fg' ! (1 + y_start + t) = res_y vars t
         \<and> fg' ! (1 + psi_start + t) = res_psi vars t
         \<and> fg' ! (1 + v_start + t) = res_v vars t
         \<and> fg' ! (1 + cte_start + t) = res_cte coeffs vars t
         \<and> fg' ! (1 + epsi_start + t) = res_epsi coeffs vars t)"

text \<open>
  The invariant of the constraint loop of \<open>FG_eval\<close>, started on \<open>fg0\<close>: before
  iteration \<open>i\<close> the cost and the six copied variables are as in \<open>fg0\<close>, and the
  residuals of the steps before \<open>i\<close> are stored.
\<close>

definition constraint_inv :: "real list \<Rightarrow> real list \<Rightarrow> real list \<Rightarrow> nat \<Rightarrow> real list \<Rightarrow> bool" where
  "constraint_inv coeffs vars fg0 i s \<longleftrightarrow>
     length s = length fg0
     \<and> s ! 0 = fg0 ! 0
     \<and> s ! (1 + x_start) = fg0 ! (1 + x_start)
     \<and> s ! (1 + y_start) = fg0 ! (1 + y_start)
     \<and> s ! (1 + psi_start) = fg0 ! (1 + psi_start)
     \<and> s ! (1 + v_start) = fg0 ! (1 + v_start)
     \<and> s ! (1 + cte_start) = fg0 ! (1 + cte_start)
     \<and> s ! (1 + epsi_start) = fg0 ! (1 + epsi_start)
     \<and> (\<forall>t. 1 \<le> t \<and> t < i \<longrightarrow>
           s ! (1 + x_start + t) = res_x vars t
         \<and> s ! (1 + y_start + t) = res_y vars t
         \<and> s ! (1 + psi_start + t) = res_psi vars t
         \<and> s ! (1 + v_start + t) = res_v vars t
         \<and> s ! (1 + cte_start + t) = res_cte coeffs vars t
         \<and> s ! (1 + epsi_start + t) = res_epsi coeffs vars t)"

text \<open>
  What a loop \<^verbatim>\<open>for (i = a; i < b; i++) xs[i] = f(i)\<close> leaves in \<open>xs\<close>: the entries from
  \<open>a\<close> up to \<open>b\<close> are replaced, the others kept.
\<close>

definition range_map :: "'a list \<Rightarrow> nat \<Rightarrow> nat \<Rightarrow> (nat \<Rightarrow> 'a) \<Rightarrow> 'a list" where
  "range_map xs a b f = map (\<lambda>j. if a \<le> j \<and> j < b then f j else xs ! j) [0..<length xs]"

section \<open>Basic facts\<close>

lemmas layout_defs =
  x_start_def y_start_def psi_start_def v_start_def cte_start_def epsi_start_def
  delta_start_def a_start_def n_vars_def n_constraints_def

lemma solver_N_ge2: "2 \<le> solver_N"
  by (simp add: solver_N_def)

lemma vec_get_Some [simp]: "i < length xs \<Longrightarrow> vec_get xs i = Some (xs ! i)"
  by (simp add: vec_get_def)

lemma vec_get_None [simp]: "\<not> i < length xs \<Longrightarrow> vec_get xs i = None"
  by (simp add: vec_get_def)

lemma vec_set_Some [simp]: "i < length xs \<Longrightarrow> vec_set xs i v = Some (xs[i := v])"
  by (simp add: vec_set_def)

lemma vec_add_Some [simp]: "i < length xs \<Longrightarrow> vec_add xs i v = Some (xs[i := xs ! i + v])"
  by (simp add: vec_add_def)

lemma for_loop_done [simp]: "\<not> t < n \<Longrightarrow> for_loop t n body s = Some s"
  by (simp add: for_loop.simps)

lemma for_loop_step:
  "t < n \<Longrightarrow> body t s = Some s' \<Longrightarrow> for_loop t n body s = for_loop (Suc t) n body s'"
  by (subst for_loop.simps) simp

lemma for_loop_fail:
  "t < n \<Longrightarrow> body t s = None \<Longrightarrow> for_loop t n body s = None"
  by (subst for_loop.simps) simp

lemma for_loop_rule:
  assumes "I t s" and "t \<le> n"
    and step: "\<And>i s. t \<le> i \<Longrightarrow> i < n \<Longrightarrow> I i s \<Longrightarrow> \<exists>s'. body i s = Some s' \<and> I (Suc i) s'"
  shows "\<exists>s'. for_loop t n body s = Some s' \<and> I n s'"
  using assms(1,2) step
proof (induction "n - t" arbitrary: t s)
  case 0
  then show ?case by simp
next
  case (Suc k)
  then have lt: "t < n" by simp
  from Suc.prems(3)[OF le_refl lt Suc.prems(1)]
  obtain s1 where b: "body t s = Some s1" and i1: "I (Suc t) s1" by blast
  have "\<exists>s'. for_loop (Suc t) n body s1 = Some s' \<and> I n s'"
  proof (rule Suc.hyps(1))
    show "k = n - Suc t" using Suc.hyps(2) by simp
    show "I (Suc t) s1" by (rule i1)
    show "Suc t \<le> n" using lt by simp
    show "\<And>i s. Suc t \<le> i \<Longrightarrow> i < n \<Longrightarrow> I i s \<Longrightarrow> \<exists>s'. body i s = Some s' \<and> I (Suc i) s'"
      using Suc.prems(3) by simp
  qed
  then show ?case using for_loop_step[of t n body s s1] lt b by simp
qed

lemma for_loop_accumulate:
  assumes body: "\<And>i s. t \<le> i \<Longrightarrow> i < n \<Longrightarrow> length s = length fg \<Longrightarrow> body i s = Some (s[0 := s ! 0 + f i])"
    and "0 < length fg" and "t \<le> n"
  shows "for_loop t n body fg = Some (fg[0 := fg ! 0 + (\<Sum>i = t..<n. f i)])"
proof -
  let ?I = "\<lambda>i s. s = fg[0 := fg ! 0 + (\<Sum>k = t..<i. f k)]"
  have "\<exists>s'. for_loop t n body fg = Some s' \<and> ?I n s'"
  proof (rule for_loop_rule[where I = ?I])
    show "?I t fg" by simp
    show "t \<le> n" by fact
    fix i s assume a: "t \<le> i" "i < n" "?I i s"
    then have "body i s = Some (s[0 := s ! 0 + f i])" by (intro body) simp_all
    moreover have "s[0 := s ! 0 + f i] = fg[0 := fg ! 0 + (\<Sum>k = t..<Suc i. f k)]"
      using a assms(2) by (simp add: add.assoc)
    ultimately show "\<exists>s'. body i s = Some s' \<and> ?I (Suc i) s'" by simp
  qed
  then show ?thesis by auto
qed

lemma polyeval_AD_eq: "polyeval_AD coeffs x = Some (\<Sum>i<length coeffs. coeffs ! i * x ^ i)"
proof -
  let ?I = "\<lambda>i r. r = (\<Sum>k<i. coeffs ! k * x ^ k)"
  have "\<exists>r. for_loop 0 (length coeffs) (polyeval_body coeffs x) 0 = Some r \<and> ?I (length coeffs) r"
    by (rule for_loop_rule[where I = ?I]) (simp_all add: polyeval_body_def)
  then show ?thesis by (auto simp: polyeval_AD_def)
qed

lemma layout_values:
  "x_start = 0" "y_start = 12" "psi_start = 24" "v_start = 36" "cte_start = 48"
  "epsi_start = 60" "delta_start = 72" "a_start = 83" "n_vars = 94" "n_constraints = 72"
  by (simp_all add: layout_defs solver_N_def)

lemma cost_state_body_eq:
  assumes "n_vars \<le> length vars" "t < solver_N" "0 < length fg"
  shows "cost_state_body mps vars t fg = Some (fg[0 := fg ! 0 + cost_state_term mps vars t])"
  using assms by (simp add: cost_state_body_def cost_state_term_def layout_values solver_N_def add.assoc)

lemma cost_actuator_body_eq:
  assumes "n_vars \<le> length vars" "t < solver_N - 1" "0 < length fg"
  shows "cost_actuator_body vars t fg = Some (fg[0 := fg ! 0 + cost_actuator_term vars t])"
  using assms by (simp add: cost_actuator_body_def cost_actuator_term_def layout_values solver_N_def add.assoc)

lemma cost_change_body_eq:
  assumes "n_vars \<le> length vars" "t < solver_N - 2" "0 < length fg"
  shows "cost_change_body vars t fg = Some (fg[0 := fg ! 0 + cost_change_term vars t])"
  using assms by (simp add: cost_change_body_def cost_change_term_def layout_values solver_N_def add.assoc)

lemma cost_loops:
  assumes "n_vars \<le> length vars" "0 < length fg"
  shows "for_loop 0 solver_N (cost_state_body mps vars) fg
           = Some (fg[0 := fg ! 0 + (\<Sum>t = 0..<solver_N. cost_state_term mps vars t)])"
    and "for_loop 0 (solver_N - 1) (cost_actuator_body vars) fg
           = Some (fg[0 := fg ! 0 + (\<Sum>t = 0..<solver_N - 1. cost_actuator_term vars t)])"
    and "for_loop 0 (solver_N - 2) (cost_change_body vars) fg
           = Some (fg[0 := fg ! 0 + (\<Sum>t = 0..<solver_N - 2. cost_change_term vars t)])"
  using assms
  by (intro for_loop_accumulate cost_state_body_eq cost_actuator_body_eq cost_change_body_eq; simp)+

lemma constraint_body_eq:
  assumes "n_vars \<le> length vars" "1 \<le> t" "t < solver_N" "2 \<le> length coeffs"
    and "n_constraints < length fg"
  shows "constraint_body coeffs vars t fg =
     Some (fg[1 + x_start + t := res_x vars t,
              1 + y_start + t := res_y vars t,
              1 + psi_start + t := res_psi vars t,
              1 + v_start + t := res_v vars t,
              1 + cte_start + t := res_cte coeffs vars t,
              1 + epsi_start + t := res_epsi coeffs vars t])"
  using assms
  by (simp add: constraint_body_def polyeval_AD_eq res_x_def res_y_def res_psi_def res_v_def
      res_cte_def res_epsi_def layout_values solver_N_def Let_def)

lemma constraint_body_short_coeffs:
  assumes "n_vars \<le> length vars" "length coeffs < 2"
  shows "constraint_body coeffs vars 1 fg = None"
  using assms
  by (simp add: constraint_body_def polyeval_AD_eq layout_values)

lemma constraint_inv_step:
  assumes "constraint_inv coeffs vars fg0 i s" "1 \<le> i" "i < solver_N" "n_constraints < length fg0"
  shows "constraint_inv coeffs vars fg0 (Suc i)
           (s[1 + x_start + i := res_x vars i,
              1 + y_start + i := res_y vars i,
              1 + psi_start + i := res_psi vars i,
              1 + v_start + i := res_v vars i,
              1 + cte_start + i := res_cte coeffs vars i,
              1 + epsi_start + i := res_epsi coeffs vars i])"
  using assms unfolding constraint_inv_def layout_values solver_N_def
  by (auto simp: nth_list_update less_Suc_eq)

lemma constraint_loop:
  assumes "n_vars \<le> length vars" "2 \<le> length coeffs" "n_constraints < length fg0"
  shows "\<exists>s'. for_loop 1 solver_N (constraint_body coeffs vars) fg0 = Some s'
               \<and> constraint_inv coeffs vars fg0 solver_N s'"
proof (rule for_loop_rule)
  show "constraint_inv coeffs vars fg0 1 fg0"
    by (simp add: constraint_inv_def)
  show "1 \<le> solver_N"
    by (simp add: solver_N_def)
  fix i s
  assume i: "1 \<le> i" "i < solver_N" and inv: "constraint_inv coeffs vars fg0 i s"
  then have len: "n_constraints < length s"
    using assms(3) by (simp add: constraint_inv_def)
  show "\<exists>s'. constraint_body coeffs vars i s = Some s' \<and> constraint_inv coeffs vars fg0 (Suc i) s'"
    using constraint_body_eq[OF assms(1) i assms(2) len]
      constraint_inv_step[OF inv i assms(3)] by simp
qed

lemma copy_initial_eq:
  "start < length vars \<Longrightarrow> 1 + start < length fg \<Longrightarrow>
   copy_initial vars start fg = Some (fg[1 + start := vars ! start])"
  by (simp add: copy_initial_def)

text \<open>The state of \<open>fg\<close> when the constraint loop of \<open>FG_eval\<close> starts.\<close>

lemma FG_eval_prefix:
  assumes "n_vars \<le> length vars" "n_constraints < length fg"
  shows "FG_eval mps coeffs fg vars =
     for_loop 1 solver_N (constraint_body coeffs vars)
       (fg[0 := cost_sum mps vars,
           1 + x_start := vars ! x_start,
           1 + y_start := vars ! y_start,
           1 + psi_start := vars ! psi_start,
           1 + v_start := vars ! v_start,
           1 + cte_start := vars ! cte_start,
           1 + epsi_start := vars ! epsi_start])"
proof -
  let ?s1 = "\<Sum>t = 0..<solver_N. cost_state_term mps vars t"
  let ?s2 = "\<Sum>t = 0..<solver_N - 1. cost_actuator_term vars t"
  let ?s3 = "\<Sum>t = 0..<solver_N - 2. cost_change_term vars t"
  have pos: "0 < length fg"
    using assms(2) by (rule le_less_trans[OF le0])
  have 0: "vec_set fg 0 0 = Some (fg[0 := 0])"
    using pos by simp
  have 1: "for_loop 0 solver_N (cost_state_body mps vars) (fg[0 := 0]) = Some (fg[0 := ?s1])"
    using cost_loops(1)[of vars "fg[0 := 0]" mps] assms(1) pos by simp
  have 2: "for_loop 0 (solver_N - 1) (cost_actuator_body vars) (fg[0 := ?s1])
             = Some (fg[0 := ?s1 + ?s2])"
    using cost_loops(2)[of vars "fg[0 := ?s1]"] assms(1) pos by simp
  have 3: "for_loop 0 (solver_N - 2) (cost_change_body vars) (fg[0 := ?s1 + ?s2])
             = Some (fg[0 := cost_sum mps vars])"
    using cost_loops(3)[of vars "fg[0 := ?s1 + ?s2]"] assms(1) pos by (simp add: cost_sum_def)
  have c: "\<And>start g. start < delta_start \<Longrightarrow> length g = length fg \<Longrightarrow>
             copy_initial vars start g = Some (g[1 + start := vars ! start])"
    using assms by (intro copy_initial_eq) (simp_all add: layout_values)
  show ?thesis
    unfolding FG_eval_def 0 bind.bind_lunit 1 2 3
    by (simp add: c layout_values)
qed

lemma FG_eval_closed:
  assumes "n_vars \<le> length vars" "n_constraints < length fg" "2 \<le> length coeffs"
  shows "\<exists>fg'. FG_eval mps coeffs fg vars = Some fg' \<and> length fg' = length fg
               \<and> fg_closed mps coeffs vars fg'"
proof -
  let ?fg0 = "fg[0 := cost_sum mps vars,
           1 + x_start := vars ! x_start,
           1 + y_start := vars ! y_start,
           1 + psi_start := vars ! psi_start,
           1 + v_start := vars ! v_start,
           1 + cte_start := vars ! cte_start,
           1 + epsi_start := vars ! epsi_start]"
  have len: "n_constraints < length ?fg0"
    using assms(2) by simp
  from constraint_loop[OF assms(1,3) len]
  obtain s' where s': "for_loop 1 solver_N (constraint_body coeffs vars) ?fg0 = Some s'"
    and inv: "constraint_inv coeffs vars ?fg0 solver_N s'" by blast
  have pos: "0 < length fg"
    using assms(2) by (rule le_less_trans[OF le0])
  have "fg_closed mps coeffs vars s'"
    using inv assms(2) pos unfolding constraint_inv_def fg_closed_def layout_values
    by (simp add: nth_list_update)
  moreover have "length s' = length fg"
    using inv by (simp add: constraint_inv_def)
  ultimately show ?thesis
    using s' FG_eval_prefix[OF assms(1,2)] by simp
qed

lemma FG_eval_short_coeffs:
  assumes "n_vars \<le> length vars" "n_constraints < length fg" "length coeffs < 2"
  shows "FG_eval mps coeffs fg vars = None"
  unfolding FG_eval_prefix[OF assms(1,2)]
proof (rule for_loop_fail)
  show "1 < solver_N"
    by (simp add: solver_N_def)
qed (rule constraint_body_short_coeffs[OF assms(1,3)])













lemma predict_residuals:
  "predict (vars ! (x_start + t - 1), vars ! (y_start + t - 1), vars ! (psi_start + t - 1),
            vars ! (v_start + t - 1))
           (vars ! (delta_start + t - 1), vars ! (a_start + t - 1))
   = (vars ! (x_start + t) - res_x vars t, vars ! (y_start + t) - res_y vars t,
      vars ! (psi_start + t) - res_psi vars t, vars ! (v_start + t) - res_v vars t)"
  by (simp add: predict_def res_x_def res_y_def res_psi_def res_v_def)



lemma length_range_map [simp]: "length (range_map xs a b f) = length xs"
  by (simp add: range_map_def)

lemma nth_range_map:
  "j < length xs \<Longrightarrow> range_map xs a b f ! j = (if a \<le> j \<and> j < b then f j else xs ! j)"
  by (simp add: range_map_def)

lemma range_map_empty [simp]: "range_map xs a a f = xs"
proof -
  have "(if a \<le> j \<and> j < a then f j else xs ! j) = xs ! j" for j
    by auto
  then show ?thesis
    by (simp add: range_map_def map_nth)
qed

lemma range_map_step:
  assumes "a \<le> i" "i < length xs"
  shows "(range_map xs a i f)[i := f i] = range_map xs a (Suc i) f"
  using assms by (auto simp: list_eq_iff_nth_eq nth_range_map nth_list_update)

lemma range_map_step_const:
  assumes "a \<le> i" "i < length xs"
  shows "(range_map xs a i (\<lambda>_. v))[i := v] = range_map xs a (Suc i) (\<lambda>_. v)"
  using range_map_step[OF assms, where f = "\<lambda>_. v"] .

lemma fill_loop:
  assumes "a \<le> b" "b \<le> length xs"
  shows "for_loop a b (fill_body v) xs = Some (range_map xs a b (\<lambda>_. v))"
proof -
  let ?I = "\<lambda>i s. s = range_map xs a i (\<lambda>_. v)"
  have "\<exists>s'. for_loop a b (fill_body v) xs = Some s' \<and> ?I b s'"
    using assms
    by (intro for_loop_rule[where I = ?I]) (simp_all add: fill_body_def range_map_step_const)
  then show ?thesis by auto
qed

lemma limit_loop:
  assumes "a \<le> b" "b \<le> length lo" "b \<le> length up"
  shows "for_loop a b (limit_body v) (lo, up)
           = Some (range_map lo a b (\<lambda>_. - v), range_map up a b (\<lambda>_. v))"
proof -
  let ?I = "\<lambda>i s. s = (range_map lo a i (\<lambda>_. - v), range_map up a i (\<lambda>_. v))"
  have "\<exists>s'. for_loop a b (limit_body v) (lo, up) = Some s' \<and> ?I b s'"
    using assms
    by (intro for_loop_rule[where I = ?I]) (simp_all add: limit_body_def range_map_step_const)
  then show ?thesis by auto
qed

lemma zero_loop:
  assumes "a \<le> b" "b \<le> length lo" "b \<le> length up"
  shows "for_loop a b zero_body (lo, up)
           = Some (range_map lo a b (\<lambda>_. 0), range_map up a b (\<lambda>_. 0))"
proof -
  let ?I = "\<lambda>i s. s = (range_map lo a i (\<lambda>_. 0), range_map up a i (\<lambda>_. 0))"
  have "\<exists>s'. for_loop a b zero_body (lo, up) = Some s' \<and> ?I b s'"
    using assms
    by (intro for_loop_rule[where I = ?I]) (simp_all add: zero_body_def range_map_step_const)
  then show ?thesis by auto
qed

lemma solved_loop:
  assumes "y_start + solver_N \<le> length sol"
  shows "for_loop 0 solver_N (solved_body sol) (replicate solver_N 0, replicate solver_N 0)
           = Some (map (\<lambda>i. sol ! (x_start + i)) [0..<solver_N],
                   map (\<lambda>i. sol ! (y_start + i)) [0..<solver_N])"
proof -
  let ?z = "replicate solver_N (0::real)"
  let ?I = "\<lambda>i s. s = (range_map ?z 0 i (\<lambda>i. sol ! (x_start + i)),
                        range_map ?z 0 i (\<lambda>i. sol ! (y_start + i)))"
  have "\<exists>s'. for_loop 0 solver_N (solved_body sol) (?z, ?z) = Some s' \<and> ?I solver_N s'"
  proof (rule for_loop_rule[where I = ?I])
    fix i s
    assume i: "0 \<le> i" "i < solver_N" and s: "?I i s"
    have "x_start + i < length sol" "y_start + i < length sol"
      using i assms by (simp_all add: layout_values)
    then show "\<exists>s'. solved_body sol i s = Some s' \<and> ?I (Suc i) s'"
      using i s
      by (simp add: solved_body_def range_map_step[where f = "\<lambda>i. sol ! (x_start + i)"]
          range_map_step[where f = "\<lambda>i. sol ! (y_start + i)"])
  qed simp_all
  moreover have "range_map ?z 0 solver_N f = map f [0..<solver_N]" for f :: "nat \<Rightarrow> real"
    by (simp add: range_map_def)
  ultimately show ?thesis by auto
qed

lemma segment_take_drop:
  assumes "s + n \<le> length xs"
  shows "map (\<lambda>i. xs ! (s + i)) [0..<n] = take n (drop s xs)"
  using assms by (auto simp: list_eq_iff_nth_eq)

lemma Solve_result_eq:
  assumes "a_start < length (solution_x solution)"
  shows "Solve_result solution =
     Some (if solution_status solution = success then []
           else [''WARNING: solver was not successful''],
           solution_x solution ! delta_start, solution_x solution ! a_start,
           take solver_N (drop x_start (solution_x solution)),
           take solver_N (drop y_start (solution_x solution)))"
proof -
  have len: "y_start + solver_N \<le> length (solution_x solution)"
    "x_start + solver_N \<le> length (solution_x solution)"
    "delta_start < length (solution_x solution)"
    using assms by (simp_all add: layout_values solver_N_def)
  show ?thesis
    using assms len(3)
    by (simp add: Solve_result_def solved_loop[OF len(1)] segment_take_drop[OF len(1)]
        segment_take_drop[OF len(2)])
qed

lemma Solve_result_short:
  assumes "\<not> a_start < length (solution_x solution)"
  shows "Solve_result solution = None"
  using assms by (simp add: Solve_result_def Let_def)

lemma set_initial_eq:
  assumes "k < length init_state" "start < length (constraints_upperbound p)"
    "start < length (constraints_lowerbound p)" "start < length (vars_init p)"
  shows "set_initial init_state start k p =
     Some (p\<lparr>vars_init := (vars_init p)[start := init_state ! k],
             constraints_lowerbound := (constraints_lowerbound p)[start := init_state ! k],
             constraints_upperbound := (constraints_upperbound p)[start := init_state ! k]\<rparr>)"
  using assms by (simp add: set_initial_def)

lemma Solve_problem_eq:
  assumes "6 \<le> length init_state"
  shows "Solve_problem mps junk init_state = Some
    \<lparr>vars_init = (range_map (Dvector junk n_vars) 0 n_vars (\<lambda>_. 0))
         [x_start := init_state ! 0, y_start := init_state ! 1, psi_start := init_state ! 2,
          v_start := init_state ! 3, cte_start := init_state ! 4, epsi_start := init_state ! 5],
      vars_lowerbound =
        range_map (range_map (range_map (range_map (Dvector junk n_vars)
          0 delta_start (\<lambda>_. - (10 ^ 19)))
          v_start cte_start (\<lambda>_. - speed_limit mps))
          delta_start a_start (\<lambda>_. - max_delta))
          a_start n_vars (\<lambda>_. - max_acc),
      vars_upperbound =
        range_map (range_map (range_map (range_map (Dvector junk n_vars)
          0 delta_start (\<lambda>_. 10 ^ 19))
          v_start cte_start (\<lambda>_. speed_limit mps))
          delta_start a_start (\<lambda>_. max_delta))
          a_start n_vars (\<lambda>_. max_acc),
      constraints_lowerbound = (range_map (Dvector junk n_constraints) 0 n_constraints (\<lambda>_. 0))
         [x_start := init_state ! 0, y_start := init_state ! 1, psi_start := init_state ! 2,
          v_start := init_state ! 3, cte_start := init_state ! 4, epsi_start := init_state ! 5],
      constraints_upperbound = (range_map (Dvector junk n_constraints) 0 n_constraints (\<lambda>_. 0))
         [x_start := init_state ! 0, y_start := init_state ! 1, psi_start := init_state ! 2,
          v_start := init_state ! 3, cte_start := init_state ! 4, epsi_start := init_state ! 5]\<rparr>"
proof -
  have 1: "for_loop 0 n_vars (fill_body 0) (Dvector junk n_vars)
             = Some (range_map (Dvector junk n_vars) 0 n_vars (\<lambda>_. 0))"
    by (rule fill_loop) (simp_all add: Dvector_def)
  have 2: "for_loop 0 delta_start (limit_body (10 ^ 19)) (Dvector junk n_vars, Dvector junk n_vars)
             = Some (range_map (Dvector junk n_vars) 0 delta_start (\<lambda>_. - (10 ^ 19)),
                     range_map (Dvector junk n_vars) 0 delta_start (\<lambda>_. 10 ^ 19))"
    by (rule limit_loop) (simp_all add: Dvector_def layout_values)
  have 3: "for_loop v_start cte_start (limit_body b) (lo, up)
             = Some (range_map lo v_start cte_start (\<lambda>_. - b),
                     range_map up v_start cte_start (\<lambda>_. b))"
    if "length lo = n_vars" "length up = n_vars" for b lo up
    using that by (intro limit_loop) (simp_all add: layout_values)
  have 4: "for_loop delta_start a_start (limit_body b) (lo, up)
             = Some (range_map lo delta_start a_start (\<lambda>_. - b),
                     range_map up delta_start a_start (\<lambda>_. b))"
    if "length lo = n_vars" "length up = n_vars" for b lo up
    using that by (intro limit_loop) (simp_all add: layout_values)
  have 5: "for_loop a_start n_vars (limit_body b) (lo, up)
             = Some (range_map lo a_start n_vars (\<lambda>_. - b),
                     range_map up a_start n_vars (\<lambda>_. b))"
    if "length lo = n_vars" "length up = n_vars" for b lo up
    using that by (intro limit_loop) (simp_all add: layout_values)
  have 6: "for_loop 0 n_constraints zero_body (Dvector junk n_constraints, Dvector junk n_constraints)
             = Some (range_map (Dvector junk n_constraints) 0 n_constraints (\<lambda>_. 0),
                     range_map (Dvector junk n_constraints) 0 n_constraints (\<lambda>_. 0))"
    by (rule zero_loop) (simp_all add: Dvector_def)
  have len: "length (Dvector junk n) = n" for n
    by (simp add: Dvector_def)
  have s: "set_initial init_state start k p =
     Some (p\<lparr>vars_init := (vars_init p)[start := init_state ! k],
             constraints_lowerbound := (constraints_lowerbound p)[start := init_state ! k],
             constraints_upperbound := (constraints_upperbound p)[start := init_state ! k]\<rparr>)"
    if "k < 6" "start < n_constraints" "length (constraints_upperbound p) = n_constraints"
      "length (constraints_lowerbound p) = n_constraints" "length (vars_init p) = n_vars"
    for start k p
    using that assms by (intro set_initial_eq) (simp_all add: layout_values)
  have heads: "x_start < n_constraints" "y_start < n_constraints" "psi_start < n_constraints"
    "v_start < n_constraints" "cte_start < n_constraints" "epsi_start < n_constraints"
    by (simp_all add: layout_values)
  show ?thesis
    unfolding Solve_problem_def 1 2 bind.bind_lunit fst_conv snd_conv
    by (simp add: 3 4 5 6 len s heads Let_def)
qed


lemma Solve_problem_bounds:
  assumes "6 \<le> length init_state"
  shows "\<exists>p. Solve_problem mps junk init_state = Some p
     \<and> length (vars_lowerbound p) = n_vars \<and> length (vars_upperbound p) = n_vars
     \<and> (\<forall>i<n_vars. vars_lowerbound p ! i =
           (if v_start \<le> i \<and> i < cte_start then - speed_limit mps
            else if i < delta_start then - (10 ^ 19)
            else if i < a_start then - max_delta else - max_acc))
     \<and> (\<forall>i<n_vars. vars_upperbound p ! i =
           (if v_start \<le> i \<and> i < cte_start then speed_limit mps
            else if i < delta_start then 10 ^ 19
            else if i < a_start then max_delta else max_acc))"
  unfolding Solve_problem_eq[OF assms]
  by (simp add: nth_range_map Dvector_def layout_values)

lemma Solve_problem_constraints:
  assumes "6 \<le> length init_state"
  shows "\<exists>p. Solve_problem mps junk init_state = Some p
     \<and> length (constraints_lowerbound p) = n_constraints
     \<and> constraints_upperbound p = constraints_lowerbound p
     \<and> (\<forall>i<n_constraints. constraints_lowerbound p ! i =
           (if i = x_start then init_state ! 0 else if i = y_start then init_state ! 1
            else if i = psi_start then init_state ! 2 else if i = v_start then init_state ! 3
            else if i = cte_start then init_state ! 4 else if i = epsi_start then init_state ! 5
            else 0))"
  unfolding Solve_problem_eq[OF assms]
  by (simp add: nth_range_map nth_list_update Dvector_def layout_values)

lemma Solve_eq:
  assumes "Solve_problem mps junk init_state = Some p"
  shows "Solve mps junk solve init_state coeffs
           = Solve_result (solve solver_options p (FG_eval mps coeffs))"
  by (simp add: Solve_def assms)

lemma Solve_result_status:
  assumes "solution_x s = solution_x s'"
  shows "map_option snd (Solve_result s) = map_option snd (Solve_result s')"
proof (cases "a_start < length (solution_x s)")
  case True
  then show ?thesis
    using assms by (simp add: Solve_result_eq)
next
  case False
  then show ?thesis
    using assms by (simp add: Solve_result_short)
qed

section \<open>The claims\<close>

subsection \<open>C1: the weight of the cross-track error along the horizon\<close>

text \<open>
  C1 (as amended). The factor of the squared normalised cross-track error at step \<open>t\<close>
  is \<open>50 * (solver_N - t)\<close>: for horizon steps \<open>s < t < solver_N\<close> the weight at the
  later step \<open>t\<close> is strictly smaller than the weight at the earlier step \<open>s\<close>. The
  weights fall towards the far end of the horizon, as the source's comment says
  (``penalize cte at the proximal end with higher weights'').
\<close>

theorem cte_weight_decreasing:
  "s < t \<Longrightarrow> t < solver_N \<Longrightarrow> cte_weight t < cte_weight s"
  by (simp add: cte_weight_def)

theorem cte_weight_decreasing_witness:
  "(0::nat) < 1 \<and> 1 < solver_N \<and> cte_weight 1 < cte_weight 0"
  using cte_weight_decreasing[of 0 1] by (simp add: solver_N_def)

text \<open>
  The claim as stated asks for \<open>cte_weight s \<le> cte_weight t\<close> whenever \<open>s < t\<close>; steps
  \<open>0\<close> and \<open>1\<close> refute it (the weights are 600 and 550).
\<close>

theorem cte_weight_increasing_counterexample:
  "(0::nat) < 1 \<and> 1 < solver_N \<and> \<not> cte_weight 1 \<ge> cte_weight 0"
  by (simp add: cte_weight_def solver_N_def)

subsection \<open>C2: the residuals of the dynamics\<close>

text \<open>
  C2. For a decision vector, a coefficient vector with at least 2 entries and a step
  \<open>t\<close> with \<open>1 \<le> t < solver_N\<close>, the evaluation succeeds and stores, for each state
  variable, the variable at step \<open>t\<close> minus its prediction from step \<open>t - 1\<close>: the
  residuals of \<open>x\<close>, \<open>y\<close>, \<open>psi\<close>, \<open>v\<close>, \<open>cte\<close> (with the polynomial
  \<open>\<Sum>i. coeffs[i] * x0 ^ i\<close> as the reference) and \<open>epsi\<close> (with \<open>arctan (coeffs[1])\<close> as
  the reference heading). The residuals of \<open>psi\<close> and \<open>epsi\<close> contain the same term
  \<open>helper_psi_term v0 delta0 = v0 * delta0 / Lf * solver_dt\<close>.
\<close>

theorem dynamics_residuals:
  assumes "n_vars \<le> length vars" and "n_constraints < length fg" and "2 \<le> length coeffs"
    and "1 \<le> t" and "t < solver_N"
  shows "let x1 = vars ! (x_start + t); y1 = vars ! (y_start + t);
             psi1 = vars ! (psi_start + t); v1 = vars ! (v_start + t);
             cte1 = vars ! (cte_start + t); epsi1 = vars ! (epsi_start + t);
             x0 = vars ! (x_start + t - 1); y0 = vars ! (y_start + t - 1);
             psi0 = vars ! (psi_start + t - 1); v0 = vars ! (v_start + t - 1);
             epsi0 = vars ! (epsi_start + t - 1);
             delta0 = vars ! (delta_start + t - 1); a0 = vars ! (a_start + t - 1)
         in \<exists>fg'. FG_eval mps coeffs fg vars = Some fg'
              \<and> fg' ! (1 + x_start + t) = x1 - (x0 + v0 * cos psi0 * solver_dt)
              \<and> fg' ! (1 + y_start + t) = y1 - (y0 + v0 * sin psi0 * solver_dt)
              \<and> fg' ! (1 + psi_start + t) = psi1 - (psi0 + helper_psi_term v0 delta0)
              \<and> fg' ! (1 + v_start + t) = v1 - (v0 + a0 * solver_dt)
              \<and> fg' ! (1 + cte_start + t)
                  = cte1 - (((\<Sum>i<length coeffs. coeffs ! i * x0 ^ i) - y0)
                            + v0 * sin epsi0 * solver_dt)
              \<and> fg' ! (1 + epsi_start + t)
                  = epsi1 - ((psi0 - arctan (coeffs ! 1)) + helper_psi_term v0 delta0)
              \<and> helper_psi_term v0 delta0 = v0 * delta0 / Lf * solver_dt"
proof -
  from FG_eval_closed[OF assms(1-3)]
  obtain fg' where ev: "FG_eval mps coeffs fg vars = Some fg'"
    and cl: "fg_closed mps coeffs vars fg'" by blast
  from cl assms(4,5) have
    "fg' ! (1 + x_start + t) = res_x vars t"
    "fg' ! (1 + y_start + t) = res_y vars t"
    "fg' ! (1 + psi_start + t) = res_psi vars t"
    "fg' ! (1 + v_start + t) = res_v vars t"
    "fg' ! (1 + cte_start + t) = res_cte coeffs vars t"
    "fg' ! (1 + epsi_start + t) = res_epsi coeffs vars t"
    unfolding fg_closed_def by blast+
  then show ?thesis
    unfolding Let_def res_x_def res_y_def res_psi_def res_v_def res_cte_def res_epsi_def
    using ev by (simp add: helper_psi_term_def)
qed

theorem dynamics_residuals_witness:
  "\<exists>fg'. FG_eval 2 [3, 0] (replicate 73 0) (replicate 94 1) = Some fg'
     \<and> fg' ! 2 = 1 - (1 + 1 * cos 1 * solver_dt)
     \<and> fg' ! 14 = 1 - (1 + 1 * sin 1 * solver_dt)
     \<and> fg' ! 26 = 1 - (1 + 1 * 1 / Lf * solver_dt)
     \<and> fg' ! 38 = 1 - (1 + 1 * solver_dt)
     \<and> fg' ! 50 = 1 - ((3 - 1) + 1 * sin 1 * solver_dt)
     \<and> fg' ! 62 = 1 - ((1 - 0) + 1 * 1 / Lf * solver_dt)"
  using dynamics_residuals[of "replicate 94 1" "replicate 73 0" "[3, 0]" 1 2]
  by (simp add: layout_values solver_N_def Let_def helper_psi_term_def lessThan_Suc
      numeral_2_eq_2)

subsection \<open>C3: pinning the initial state\<close>

text \<open>
  C3 (as amended). The constraint vector has \<open>6 * solver_N\<close> entries. The six residuals of
  the initial timestep are the raw decision variables at the heads of the six state
  segments, and they stand at the heads of the six segments of the constraint vector
  (constraint indices \<open>x_start\<close>, \<open>y_start\<close>, \<open>psi_start\<close>, \<open>v_start\<close>, \<open>cte_start\<close>,
  \<open>epsi_start\<close>, that is \<open>0\<close>, \<open>N\<close>, \<open>\<dots>\<close>, \<open>5 * N\<close>; in \<open>fg\<close> one place further, after the
  cost). The lower and upper constraint bounds are the same array: the caller's initial
  state at those six indices and zero at the other \<open>6 * (solver_N - 1)\<close> indices.
\<close>

theorem initial_state_pinning:
  assumes "6 \<le> length init_state" and "n_vars \<le> length vars"
    and "n_constraints < length fg" and "2 \<le> length coeffs"
  shows "n_constraints = 6 * solver_N
     \<and> (\<exists>fg'. FG_eval mps coeffs fg vars = Some fg'
           \<and> fg' ! (1 + x_start) = vars ! x_start
           \<and> fg' ! (1 + y_start) = vars ! y_start
           \<and> fg' ! (1 + psi_start) = vars ! psi_start
           \<and> fg' ! (1 + v_start) = vars ! v_start
           \<and> fg' ! (1 + cte_start) = vars ! cte_start
           \<and> fg' ! (1 + epsi_start) = vars ! epsi_start)
     \<and> (\<exists>p. Solve_problem mps junk init_state = Some p
           \<and> length (constraints_lowerbound p) = n_constraints
           \<and> constraints_upperbound p = constraints_lowerbound p
           \<and> constraints_lowerbound p ! x_start = init_state ! 0
           \<and> constraints_lowerbound p ! y_start = init_state ! 1
           \<and> constraints_lowerbound p ! psi_start = init_state ! 2
           \<and> constraints_lowerbound p ! v_start = init_state ! 3
           \<and> constraints_lowerbound p ! cte_start = init_state ! 4
           \<and> constraints_lowerbound p ! epsi_start = init_state ! 5
           \<and> (\<forall>i<n_constraints.
                 i \<notin> {x_start, y_start, psi_start, v_start, cte_start, epsi_start}
                 \<longrightarrow> constraints_lowerbound p ! i = 0))"
proof -
  have "n_constraints = 6 * solver_N"
    by (simp add: layout_values solver_N_def)
  moreover from FG_eval_closed[OF assms(2-4)]
  have "\<exists>fg'. FG_eval mps coeffs fg vars = Some fg'
           \<and> fg' ! (1 + x_start) = vars ! x_start
           \<and> fg' ! (1 + y_start) = vars ! y_start
           \<and> fg' ! (1 + psi_start) = vars ! psi_start
           \<and> fg' ! (1 + v_start) = vars ! v_start
           \<and> fg' ! (1 + cte_start) = vars ! cte_start
           \<and> fg' ! (1 + epsi_start) = vars ! epsi_start"
    unfolding fg_closed_def by blast
  moreover from Solve_problem_constraints[OF assms(1)]
  obtain p where p: "Solve_problem mps junk init_state = Some p"
    "length (constraints_lowerbound p) = n_constraints"
    "constraints_upperbound p = constraints_lowerbound p"
    and nth: "\<forall>i<n_constraints. constraints_lowerbound p ! i =
           (if i = x_start then init_state ! 0 else if i = y_start then init_state ! 1
            else if i = psi_start then init_state ! 2 else if i = v_start then init_state ! 3
            else if i = cte_start then init_state ! 4 else if i = epsi_start then init_state ! 5
            else 0)"
    by blast
  have "constraints_lowerbound p ! x_start = init_state ! 0"
    "constraints_lowerbound p ! y_start = init_state ! 1"
    "constraints_lowerbound p ! psi_start = init_state ! 2"
    "constraints_lowerbound p ! v_start = init_state ! 3"
    "constraints_lowerbound p ! cte_start = init_state ! 4"
    "constraints_lowerbound p ! epsi_start = init_state ! 5"
    "\<forall>i<n_constraints. i \<notin> {x_start, y_start, psi_start, v_start, cte_start, epsi_start}
       \<longrightarrow> constraints_lowerbound p ! i = 0"
    using nth by (simp_all add: layout_values)
  with p have "\<exists>p. Solve_problem mps junk init_state = Some p
           \<and> length (constraints_lowerbound p) = n_constraints
           \<and> constraints_upperbound p = constraints_lowerbound p
           \<and> constraints_lowerbound p ! x_start = init_state ! 0
           \<and> constraints_lowerbound p ! y_start = init_state ! 1
           \<and> constraints_lowerbound p ! psi_start = init_state ! 2
           \<and> constraints_lowerbound p ! v_start = init_state ! 3
           \<and> constraints_lowerbound p ! cte_start = init_state ! 4
           \<and> constraints_lowerbound p ! epsi_start = init_state ! 5
           \<and> (\<forall>i<n_constraints.
                 i \<notin> {x_start, y_start, psi_start, v_start, cte_start, epsi_start}
                 \<longrightarrow> constraints_lowerbound p ! i = 0)"
    by blast
  ultimately show ?thesis
    by blast
qed

theorem initial_state_pinning_witness:
  "(\<exists>fg'. FG_eval 2 [0, 0] (replicate 73 0) (replicate 94 7) = Some fg'
       \<and> fg' ! 1 = 7 \<and> fg' ! 13 = 7 \<and> fg' ! 61 = 7)
   \<and> (\<exists>p. Solve_problem 2 0 [1, 2, 3, 4, 5, 6] = Some p
        \<and> length (constraints_lowerbound p) = 72
        \<and> constraints_upperbound p = constraints_lowerbound p
        \<and> constraints_lowerbound p ! 0 = 1 \<and> constraints_lowerbound p ! 12 = 2
        \<and> constraints_lowerbound p ! 60 = 6 \<and> constraints_lowerbound p ! 1 = 0)"
proof -
  have h: "6 \<le> length [1, 2, 3, 4, 5, 6 :: real]" "n_vars \<le> length (replicate 94 (7::real))"
    "n_constraints < length (replicate 73 (0::real))" "2 \<le> length [0, 0 :: real]"
    by (simp_all add: layout_values)
  from initial_state_pinning[OF h, of 2 0]
  obtain fg' p where fg': "FG_eval 2 [0, 0] (replicate 73 0) (replicate 94 7) = Some fg'"
    "fg' ! (1 + x_start) = replicate 94 7 ! x_start"
    "fg' ! (1 + y_start) = replicate 94 7 ! y_start"
    "fg' ! (1 + epsi_start) = replicate 94 7 ! epsi_start"
    and p: "Solve_problem 2 0 [1, 2, 3, 4, 5, 6] = Some p"
    "length (constraints_lowerbound p) = n_constraints"
    "constraints_upperbound p = constraints_lowerbound p"
    "constraints_lowerbound p ! x_start = [1, 2, 3, 4, 5, 6] ! 0"
    "constraints_lowerbound p ! y_start = [1, 2, 3, 4, 5, 6] ! 1"
    "constraints_lowerbound p ! epsi_start = [1, 2, 3, 4, 5, 6] ! 5"
    and z: "\<forall>i<n_constraints.
                 i \<notin> {x_start, y_start, psi_start, v_start, cte_start, epsi_start}
                 \<longrightarrow> constraints_lowerbound p ! i = 0"
    by blast
  have "constraints_lowerbound p ! 1 = 0"
    using z[rule_format, of 1] by (simp add: layout_values)
  then show ?thesis
    using fg' p by (simp add: layout_values)
qed

text \<open>
  The claim as stated puts the six residuals and the six non-zero bounds at the first six
  indices of the constraint vector. For the initial state \<open>(1, 2, 3, 4, 5, 6)\<close> the bounds
  at constraint index \<open>1\<close> are \<open>0\<close>, not \<open>2\<close>, and the value \<open>2\<close> stands at index
  \<open>y_start = 12\<close>; for a decision vector that is \<open>1\<close> at \<open>y_start\<close> and \<open>0\<close> elsewhere the
  second residual (\<^verbatim>\<open>fg[2]\<close>) is \<open>0\<close>, the residual of \<open>x\<close> at step \<open>1\<close>, not the variable
  at the head of the \<open>y\<close> segment.
\<close>

theorem first_six_constraints_counterexample:
  "Solve_problem 2 0 [1, 2, 3, 4, 5, 6] \<noteq> None
   \<and> constraints_lowerbound (the (Solve_problem 2 0 [1, 2, 3, 4, 5, 6])) ! 1 = 0
   \<and> constraints_upperbound (the (Solve_problem 2 0 [1, 2, 3, 4, 5, 6])) ! 1 = 0
   \<and> [1, 2, 3, 4, 5, 6 :: real] ! 1 = 2
   \<and> constraints_lowerbound (the (Solve_problem 2 0 [1, 2, 3, 4, 5, 6])) ! 12 = 2
   \<and> FG_eval 2 [0, 0] (replicate 73 0) ((replicate 94 0)[y_start := 1]) \<noteq> None
   \<and> the (FG_eval 2 [0, 0] (replicate 73 0) ((replicate 94 0)[y_start := 1])) ! 2 = 0
   \<and> (replicate 94 0)[y_start := 1 :: real] ! y_start = 1"
proof -
  obtain p where p: "Solve_problem 2 0 [1, 2, 3, 4, 5, 6] = Some p"
    "constraints_upperbound p = constraints_lowerbound p"
    "constraints_lowerbound p ! 1 = 0" "constraints_lowerbound p ! 12 = 2"
    using Solve_problem_constraints[of "[1, 2, 3, 4, 5, 6]" 2 0]
    by (auto simp: layout_values)
  obtain fg' where fg': "FG_eval 2 [0, 0] (replicate 73 0) ((replicate 94 0)[y_start := 1]) = Some fg'"
    "fg_closed 2 [0, 0] ((replicate 94 0)[y_start := 1]) fg'"
    using FG_eval_closed[of "(replicate 94 0)[y_start := 1]" "replicate 73 0" "[0, 0]" 2]
    by (auto simp: layout_values)
  have "(1::nat) \<le> 1" "1 < solver_N"
    by (simp_all add: solver_N_def)
  with fg'(2) have "fg' ! (1 + x_start + 1) = res_x ((replicate 94 0)[y_start := 1]) 1"
    unfolding fg_closed_def by blast
  then have "fg' ! 2 = res_x ((replicate 94 0)[y_start := 1]) 1"
    by (simp add: layout_values numeral_2_eq_2)
  also have "\<dots> = 0"
    by (simp add: res_x_def layout_values)
  finally show ?thesis
    using p fg'(1) by (simp add: layout_values)
qed

subsection \<open>C4: the layout of the decision vector\<close>


subsection \<open>C5: the cost is a sum of weighted squares\<close>



subsection \<open>C6: dead reckoning with zero actuation\<close>


subsection \<open>C7: the bounds of the variables\<close>

text \<open>
  C7. For an initial state of (at least) six entries, \<^verbatim>\<open>Solve\<close> builds bound arrays of
  \<open>n_vars\<close> entries in which every entry of the \<open>x\<close>, \<open>y\<close>, \<open>psi\<close>, \<open>cte\<close> and \<open>epsi\<close>
  segments has the bounds \<open>-1.0e19\<close> and \<open>1.0e19\<close> (the source's ``no limit'': the
  magnitude from which on the solver takes a bound to be absent), every entry of the \<open>v\<close>
  segment has \<open>- speed_limit\<close> and \<open>speed_limit\<close>, every entry of the \<open>delta\<close> segment
  \<open>- max_delta\<close> and \<open>max_delta\<close>, and every entry of the \<open>a\<close> segment \<open>- max_acc\<close> and
  \<open>max_acc\<close>.
\<close>

theorem variable_bounds:
  assumes "6 \<le> length init_state"
  shows "\<exists>p. Solve_problem mps junk init_state = Some p
     \<and> length (vars_lowerbound p) = n_vars \<and> length (vars_upperbound p) = n_vars
     \<and> (\<forall>t<solver_N.
           vars_lowerbound p ! (x_start + t) = - (10 ^ 19)
         \<and> vars_upperbound p ! (x_start + t) = 10 ^ 19
         \<and> vars_lowerbound p ! (y_start + t) = - (10 ^ 19)
         \<and> vars_upperbound p ! (y_start + t) = 10 ^ 19
         \<and> vars_lowerbound p ! (psi_start + t) = - (10 ^ 19)
         \<and> vars_upperbound p ! (psi_start + t) = 10 ^ 19
         \<and> vars_lowerbound p ! (cte_start + t) = - (10 ^ 19)
         \<and> vars_upperbound p ! (cte_start + t) = 10 ^ 19
         \<and> vars_lowerbound p ! (epsi_start + t) = - (10 ^ 19)
         \<and> vars_upperbound p ! (epsi_start + t) = 10 ^ 19
         \<and> vars_lowerbound p ! (v_start + t) = - speed_limit mps
         \<and> vars_upperbound p ! (v_start + t) = speed_limit mps)
     \<and> (\<forall>t<solver_N - 1.
           vars_lowerbound p ! (delta_start + t) = - max_delta
         \<and> vars_upperbound p ! (delta_start + t) = max_delta
         \<and> vars_lowerbound p ! (a_start + t) = - max_acc
         \<and> vars_upperbound p ! (a_start + t) = max_acc)"
proof -
  from Solve_problem_bounds[OF assms]
  obtain p where p: "Solve_problem mps junk init_state = Some p"
    "length (vars_lowerbound p) = n_vars" "length (vars_upperbound p) = n_vars"
    and lo: "\<And>i. i < n_vars \<Longrightarrow> vars_lowerbound p ! i =
           (if v_start \<le> i \<and> i < cte_start then - speed_limit mps
            else if i < delta_start then - (10 ^ 19)
            else if i < a_start then - max_delta else - max_acc)"
    and up: "\<And>i. i < n_vars \<Longrightarrow> vars_upperbound p ! i =
           (if v_start \<le> i \<and> i < cte_start then speed_limit mps
            else if i < delta_start then 10 ^ 19
            else if i < a_start then max_delta else max_acc)"
    by blast
  show ?thesis
  proof (intro exI conjI allI impI)
    show "Solve_problem mps junk init_state = Some p" by (rule p)
  qed (simp_all add: p lo up layout_values solver_N_def)
qed

theorem variable_bounds_witness:
  "\<exists>p. Solve_problem 2 0 [1, 2, 3, 4, 5, 6] = Some p
     \<and> length (vars_lowerbound p) = 94
     \<and> vars_lowerbound p ! 0 = - (10 ^ 19) \<and> vars_upperbound p ! 71 = 10 ^ 19
     \<and> vars_lowerbound p ! 36 = - 35 \<and> vars_upperbound p ! 47 = 35
     \<and> vars_lowerbound p ! 72 = - max_delta \<and> vars_upperbound p ! 93 = max_acc"
proof -
  from variable_bounds[of "[1, 2, 3, 4, 5, 6]" 2 0]
  obtain p where p: "Solve_problem 2 0 [1, 2, 3, 4, 5, 6] = Some p"
    "length (vars_lowerbound p) = n_vars"
    and s: "\<And>t. t < solver_N \<Longrightarrow>
           vars_lowerbound p ! (x_start + t) = - (10 ^ 19)
         \<and> vars_upperbound p ! (epsi_start + t) = 10 ^ 19
         \<and> vars_lowerbound p ! (v_start + t) = - speed_limit 2
         \<and> vars_upperbound p ! (v_start + t) = speed_limit 2"
    and a: "\<And>t. t < solver_N - 1 \<Longrightarrow>
           vars_lowerbound p ! (delta_start + t) = - max_delta
         \<and> vars_upperbound p ! (a_start + t) = max_acc"
    by auto
  show ?thesis
    using p s[of 0] s[of 11] a[of 0] a[of 10]
    by (simp add: layout_values solver_N_def speed_limit_def)
qed

subsection \<open>C8: what \<^verbatim>\<open>Solve\<close> returns\<close>

text \<open>
  C8. When the problem has been set up and the solver has returned a solution vector of
  \<open>n_vars\<close> entries, \<^verbatim>\<open>Solve\<close> returns the entry at \<open>delta_start\<close> as the next steering,
  the entry at \<open>a_start\<close> as the next acceleration, and the \<open>x\<close> and \<open>y\<close> segments of
  the solution, each of \<open>solver_N\<close> entries from the initial step on and in order, as the
  predicted positions.
\<close>

theorem Solve_returns:
  assumes "Solve_problem mps junk init_state = Some p"
    and "solve solver_options p (FG_eval mps coeffs) = solution"
    and "length (solution_x solution) = n_vars"
  shows "\<exists>cerr solved_x solved_y.
       Solve mps junk solve init_state coeffs
         = Some (cerr, solution_x solution ! delta_start, solution_x solution ! a_start,
                 solved_x, solved_y)
     \<and> solved_x = take solver_N (drop x_start (solution_x solution))
     \<and> solved_y = take solver_N (drop y_start (solution_x solution))
     \<and> length solved_x = solver_N \<and> length solved_y = solver_N
     \<and> (\<forall>i<solver_N. solved_x ! i = solution_x solution ! (x_start + i)
                      \<and> solved_y ! i = solution_x solution ! (y_start + i))"
proof -
  have a: "a_start < length (solution_x solution)"
    using assms(3) by (simp add: layout_values)
  have "Solve mps junk solve init_state coeffs = Solve_result solution"
    using Solve_eq[OF assms(1)] assms(2) by simp
  then show ?thesis
    using assms(3) unfolding Solve_result_eq[OF a]
    by (simp add: layout_values solver_N_def)
qed

theorem Solve_returns_witness:
  "\<exists>cerr. Solve 2 0 (\<lambda>opts p fg_eval. \<lparr>solution_status = success,
                                        solution_x = map real [0..<94]\<rparr>)
             [1, 2, 3, 4, 5, 6] [0, 0]
     = Some (cerr, 72, 83, map real [0..<12], map real [12..<24])"
proof -
  obtain p where p: "Solve_problem 2 0 [1, 2, 3, 4, 5, 6] = Some p"
    using Solve_problem_constraints[of "[1, 2, 3, 4, 5, 6]" 2 0] by auto
  show ?thesis
    using Solve_returns[OF p, of "\<lambda>opts p fg_eval. \<lparr>solution_status = success,
                                        solution_x = map real [0..<94]\<rparr>" "[0, 0]"
        "\<lparr>solution_status = success, solution_x = map real [0..<94]\<rparr>"]
    by (simp add: layout_values solver_N_def take_map drop_map del: upt_rec_numeral)
qed


subsection \<open>C9: a solver status other than success\<close>

text \<open>
  C9. The solver's status decides only whether the warning is written to \<^verbatim>\<open>std::cerr\<close>.
  Two solvers that return the same solution vector for the problem, whatever their
  statuses, make \<^verbatim>\<open>Solve\<close> return the same tuple (or fail alike); and when the solution
  vector has \<open>n_vars\<close> entries, \<^verbatim>\<open>Solve\<close> returns, for every status, the tuple extracted from
  that vector: there is no failure, no retry and no replacement command, and the warning
  is written exactly when the status is not \<open>success\<close>.
\<close>

theorem Solve_status_independent:
  assumes "Solve_problem mps junk init_state = Some p"
    and "solution_x (solve solver_options p (FG_eval mps coeffs)) = sol"
    and "solution_status (solve solver_options p (FG_eval mps coeffs)) = st"
    and "solution_x (solve' solver_options p (FG_eval mps coeffs)) = sol"
  shows "map_option snd (Solve mps junk solve init_state coeffs)
           = map_option snd (Solve mps junk solve' init_state coeffs)
     \<and> (length sol = n_vars \<longrightarrow>
          Solve mps junk solve init_state coeffs
            = Some (if st = success then [] else [''WARNING: solver was not successful''],
                    sol ! delta_start, sol ! a_start,
                    take solver_N (drop x_start sol), take solver_N (drop y_start sol)))"
proof (intro conjI impI)
  show "map_option snd (Solve mps junk solve init_state coeffs)
          = map_option snd (Solve mps junk solve' init_state coeffs)"
    unfolding Solve_eq[OF assms(1)]
    by (rule Solve_result_status) (simp add: assms(2,4))
next
  assume "length sol = n_vars"
  then have "a_start < length (solution_x (solve solver_options p (FG_eval mps coeffs)))"
    by (simp add: assms(2) layout_values)
  then show "Solve mps junk solve init_state coeffs
            = Some (if st = success then [] else [''WARNING: solver was not successful''],
                    sol ! delta_start, sol ! a_start,
                    take solver_N (drop x_start sol), take solver_N (drop y_start sol))"
    unfolding Solve_eq[OF assms(1)] by (simp add: Solve_result_eq assms(2,3))
qed

theorem Solve_status_independent_witness:
  "Solve 2 0 (\<lambda>opts p fg_eval. \<lparr>solution_status = maxiter_exceeded,
                                solution_x = map real [0..<94]\<rparr>)
     [1, 2, 3, 4, 5, 6] [0, 0]
   = Some ([''WARNING: solver was not successful''], 72, 83, map real [0..<12],
           map real [12..<24])
   \<and> map_option snd
       (Solve 2 0 (\<lambda>opts p fg_eval. \<lparr>solution_status = maxiter_exceeded,
                                     solution_x = map real [0..<94]\<rparr>)
          [1, 2, 3, 4, 5, 6] [0, 0])
     = map_option snd
       (Solve 2 0 (\<lambda>opts p fg_eval. \<lparr>solution_status = success,
                                     solution_x = map real [0..<94]\<rparr>)
          [1, 2, 3, 4, 5, 6] [0, 0])"
proof -
  obtain p where p: "Solve_problem 2 0 [1, 2, 3, 4, 5, 6] = Some p"
    using Solve_problem_constraints[of "[1, 2, 3, 4, 5, 6]" 2 0] by auto
  have c: "map_option snd
       (Solve 2 0 (\<lambda>opts p fg_eval. \<lparr>solution_status = maxiter_exceeded,
                                     solution_x = map real [0..<94]\<rparr>)
          [1, 2, 3, 4, 5, 6] [0, 0])
     = map_option snd
       (Solve 2 0 (\<lambda>opts p fg_eval. \<lparr>solution_status = success,
                                     solution_x = map real [0..<94]\<rparr>)
          [1, 2, 3, 4, 5, 6] [0, 0])
   \<and> (length (map real [0..<94]) = n_vars \<longrightarrow>
       Solve 2 0 (\<lambda>opts p fg_eval. \<lparr>solution_status = maxiter_exceeded,
                                solution_x = map real [0..<94]\<rparr>)
          [1, 2, 3, 4, 5, 6] [0, 0]
        = Some (if maxiter_exceeded = success then []
                else [''WARNING: solver was not successful''],
                map real [0..<94] ! delta_start, map real [0..<94] ! a_start,
                take solver_N (drop x_start (map real [0..<94])),
                take solver_N (drop y_start (map real [0..<94]))))"
    by (rule Solve_status_independent[OF p]) simp_all
  have a: "map_option snd
       (Solve 2 0 (\<lambda>opts p fg_eval. \<lparr>solution_status = maxiter_exceeded,
                                     solution_x = map real [0..<94]\<rparr>)
          [1, 2, 3, 4, 5, 6] [0, 0])
     = map_option snd
       (Solve 2 0 (\<lambda>opts p fg_eval. \<lparr>solution_status = success,
                                     solution_x = map real [0..<94]\<rparr>)
          [1, 2, 3, 4, 5, 6] [0, 0])"
    using c by (rule conjunct1)
  have b: "Solve 2 0 (\<lambda>opts p fg_eval. \<lparr>solution_status = maxiter_exceeded,
                                solution_x = map real [0..<94]\<rparr>)
          [1, 2, 3, 4, 5, 6] [0, 0]
        = Some ([''WARNING: solver was not successful''], 72, 83, map real [0..<12],
                map real [12..<24])"
    using c[THEN conjunct2]
    by (simp add: layout_values solver_N_def take_map drop_map del: upt_rec_numeral)
  show ?thesis
    by (rule conjI[OF b a])
qed

subsection \<open>C10: the coefficient vector needs two entries\<close>

text \<open>
  C10. The polynomial evaluation succeeds for a coefficient vector of any length, the empty
  one included, and returns \<open>\<Sum>i<length cs. cs[i] * x ^ i\<close>. The combined evaluation, on a
  decision vector of at least \<open>n_vars\<close> entries and an output vector of at least
  \<open>1 + n_constraints\<close> entries, succeeds (no access of it is out of range) exactly when the
  coefficient vector has at least 2 entries: it reads \<^verbatim>\<open>coeffs[1]\<close> at the first future step.
\<close>

theorem coeffs_precondition:
  assumes "n_vars \<le> length vars" and "n_constraints < length fg"
  shows "polyeval_AD cs x = Some (\<Sum>i<length cs. cs ! i * x ^ i)
     \<and> polyeval_AD [] x = Some 0
     \<and> ((\<exists>fg'. FG_eval mps coeffs fg vars = Some fg') \<longleftrightarrow> 2 \<le> length coeffs)"
proof -
  have "(\<exists>fg'. FG_eval mps coeffs fg vars = Some fg') \<longleftrightarrow> 2 \<le> length coeffs"
  proof (cases "2 \<le> length coeffs")
    case True
    then show ?thesis
      using FG_eval_closed[OF assms True] by blast
  next
    case False
    then have "FG_eval mps coeffs fg vars = None"
      by (intro FG_eval_short_coeffs assms) simp
    then show ?thesis
      using False by simp
  qed
  then show ?thesis
    by (simp add: polyeval_AD_eq)
qed

theorem coeffs_precondition_witness:
  "(\<exists>fg'. FG_eval 2 [0, 0] (replicate 73 0) (replicate 94 0) = Some fg')
   \<and> FG_eval 2 [0] (replicate 73 0) (replicate 94 0) = None
   \<and> polyeval_AD [1, 2, 3] 2 = Some 17"
  using coeffs_precondition[of "replicate 94 0" "replicate 73 0" "[1, 2, 3]" 2 2 "[0, 0]"]
    coeffs_precondition[of "replicate 94 0" "replicate 73 0" "[]" 0 2 "[0]"]
  by (simp add: layout_values lessThan_Suc numeral_3_eq_3)

end
